theory Spec2Isabelle
  imports Main "HOL-Library.Word" "HOL-Library.Sublist"
begin

section \<open>Data model\<close>

text \<open>
  The vote lifecycle engine of the challenger: \<^verbatim>\<open>vote/vote_broadcaster.go\<close>,
  \<^verbatim>\<open>vote/vote_collator.go\<close> and the validator cache of \<^verbatim>\<open>executor/executor.go\<close>.
  Go's \<^verbatim>\<open>uint64\<close> is a 64-bit word (unsigned comparison), a byte slice is a list of
  8-bit words.
\<close>

type_synonym uint64 = "64 word"
type_synonym bytes = "8 word list"

text \<open>\<^verbatim>\<open>model.Event\<close>: the fields that the three source files read.\<close>

record event =
  ChallengeId :: uint64
  Height :: uint64
  ExpiredHeight :: uint64

text \<open>The status domain of an event in the Store. The source names \<^verbatim>\<open>model.Expired\<close> and
  \<^verbatim>\<open>model.EnoughVotesCollected\<close>; \<open>Open\<close> stands for every status before them.\<close>

datatype status = Open | EnoughVotesCollected | Expired

datatype event_type = UnsetEventType | DataAvailabilityChallengeEvent

text \<open>\<^verbatim>\<open>votepool.Vote\<close>.\<close>

record vote =
  PubKey :: bytes
  Signature :: bytes
  EventType :: event_type
  EventHash :: bytes

text \<open>\<^verbatim>\<open>tmtypes.Validator\<close>, identified by its relayer BLS key.\<close>

type_synonym validator = bytes

subsection \<open>Errors\<close>

text \<open>
  A Go \<^verbatim>\<open>error\<close> is a value; \<open>error_text\<close> is its \<^verbatim>\<open>Error()\<close> method. \<open>External\<close> is an
  error handed back by a collaborator (Store, event source, chain client) with its text.
  The three \<^verbatim>\<open>fmt.Errorf\<close> errors of the source carry the challenge id that is printed
  with \<^verbatim>\<open>%d\<close>.
\<close>

datatype error =
    ErrEventExpired
  | UpdateStatusFailed uint64
  | BroadcastFailed uint64
  | NotEnoughVotes uint64
  | External string

definition digit_char :: "nat \<Rightarrow> char" where
  "digit_char d = char_of (48 + d)"

fun decimal :: "nat \<Rightarrow> string" where
  "decimal n = (if n < 10 then [digit_char n] else decimal (n div 10) @ [digit_char (n mod 10)])"

declare decimal.simps [simp del]

text \<open>The text of \<^verbatim>\<open>common.ErrEventExpired\<close> is declared in package \<^verbatim>\<open>common\<close>; the code
  only ever compares it with itself.\<close>

fun error_text :: "error \<Rightarrow> string" where
  "error_text ErrEventExpired = ''event expired''"
| "error_text (UpdateStatusFailed c) =
     ''failed to update event status for challengeId: '' @ decimal (unat c)"
| "error_text (BroadcastFailed c) =
     ''failed to broadcast vote for challengeId: '' @ decimal (unat c)"
| "error_text (NotEnoughVotes c) =
     ''failed to query enough votes for event '' @ decimal (unat c)"
| "error_text (External t) = t"

text \<open>\<^verbatim>\<open>strings.Contains(s, substr)\<close>.\<close>

fun Contains :: "string \<Rightarrow> string \<Rightarrow> bool" where
  "Contains [] substr = (substr = [])"
| "Contains (c # cs) substr = (prefix substr (c # cs) \<or> Contains cs substr)"

subsection \<open>Observable actions\<close>

text \<open>
  Every call to a collaborator, every log line and every sleep is recorded, in program
  order, in a trace. \<open>RetryInterval\<close> is a constant of package \<^verbatim>\<open>vote\<close>; the inter-event
  pacing delay is the literal \<^verbatim>\<open>50 * time.Millisecond\<close>.
\<close>

datatype duration = RetryInterval | Milliseconds nat

datatype severity = Infof | Errorf

datatype log_site =
    Fetch_failed error
  | Duplicated_vote uint64 error
  | Construct_vote_failed uint64 error
  | Broadcaster_starting uint64
  | Vote_broadcasted uint64 uint64
  | Broadcaster_expired uint64 uint64 uint64
  | Fetched_for_collate nat
  | Collator_completed uint64
  | Collator_expired uint64 uint64 uint64
  | Query_votes_failed uint64 error
  | Collating_vote_count uint64 nat
  | Update_validators_failed error

datatype action =
    Call_GetCachedBlockHeight uint64
  | Call_FetchEventsForSelfVote uint64
  | Call_FetchEventsForCollate uint64
  | Call_SignVote bytes
  | Call_SaveVoteAndUpdateEventStatus vote uint64
  | Call_UpdateEventStatusByChallengeId uint64 status
  | Call_UpdateEventStatus uint64 status
  | Call_BroadcastVote vote
  | Call_GetVotesByEventHash bytes
  | Call_queryLatestValidators
  | Log severity log_site
  | Sleep duration

subsection \<open>The collaborators\<close>

text \<open>
  What the collaborators answer is not decided by the three source files: the cached
  block height is refreshed by another loop, the Store and the event source are shared
  with other nodes. Their answers are the fields of an environment, indexed by the number
  of collaborator calls made so far (\<open>tick\<close>), so that two reads of the block height in
  one function may differ. The hash and the signature are functions of the environment.
\<close>

record env =
  height_at :: "nat \<Rightarrow> uint64"
  fetch_self_vote_at :: "nat \<Rightarrow> event list \<times> error option"
  fetch_collate_at :: "nat \<Rightarrow> event list \<times> error option"
  save_vote_at :: "nat \<Rightarrow> error option"
  update_status_at :: "nat \<Rightarrow> error option"
  broadcast_at :: "nat \<Rightarrow> error option"
  votes_at :: "nat \<Rightarrow> error + vote list"
  validators_at :: "nat \<Rightarrow> error + validator list"
  CalculateEventHash :: "event \<Rightarrow> bytes"
  SignVote :: "vote \<Rightarrow> bytes \<Rightarrow> vote"

text \<open>
  The state that the code reads and writes: the status column of the Store's event table,
  the broadcaster's \<^verbatim>\<open>cachedLocalVote\<close> map, the executor's \<^verbatim>\<open>validators\<close> field, and
  the trace.
\<close>

record state =
  tick :: nat
  trace :: "action list"
  event_status :: "uint64 \<rightharpoonup> status"
  cachedLocalVote :: "uint64 \<rightharpoonup> vote"
  validators :: "validator list"

definition emit :: "action \<Rightarrow> state \<Rightarrow> state" where
  "emit a s = s\<lparr>trace := trace s @ [a]\<rparr>"

definition call :: "action \<Rightarrow> state \<Rightarrow> state" where
  "call a s = s\<lparr>tick := Suc (tick s), trace := trace s @ [a]\<rparr>"

definition GetCachedBlockHeight :: "env \<Rightarrow> state \<Rightarrow> uint64 \<times> state" where
  "GetCachedBlockHeight env s =
     (height_at env (tick s), call (Call_GetCachedBlockHeight (height_at env (tick s))) s)"

definition FetchEventsForSelfVote ::
  "env \<Rightarrow> uint64 \<Rightarrow> state \<Rightarrow> (event list \<times> error option) \<times> state" where
  "FetchEventsForSelfVote env currentHeight s =
     (fetch_self_vote_at env (tick s), call (Call_FetchEventsForSelfVote currentHeight) s)"

definition FetchEventsForCollate ::
  "env \<Rightarrow> uint64 \<Rightarrow> state \<Rightarrow> (event list \<times> error option) \<times> state" where
  "FetchEventsForCollate env currentHeight s =
     (fetch_collate_at env (tick s), call (Call_FetchEventsForCollate currentHeight) s)"

text \<open>
  Modelled from the spec: \<^verbatim>\<open>dao.UpdateEventStatusByChallengeId\<close> and the data provider's
  \<^verbatim>\<open>UpdateEventStatus\<close> are not in the source files. The spec gives
  \<^verbatim>\<open>updateEventStatus(challengeId, status) -> error\<close>: on success the event has the new
  status in the Store, on failure nothing is committed.
\<close>

definition UpdateEventStatusByChallengeId ::
  "env \<Rightarrow> uint64 \<Rightarrow> status \<Rightarrow> state \<Rightarrow> error option \<times> state" where
  "UpdateEventStatusByChallengeId env c st s =
     (let r = update_status_at env (tick s);
          s1 = call (Call_UpdateEventStatusByChallengeId c st) s
      in (r, if r = None then s1\<lparr>event_status := (event_status s1)(c \<mapsto> st)\<rparr> else s1))"

definition UpdateEventStatus ::
  "env \<Rightarrow> uint64 \<Rightarrow> status \<Rightarrow> state \<Rightarrow> error option \<times> state" where
  "UpdateEventStatus env c st s =
     (let r = update_status_at env (tick s);
          s1 = call (Call_UpdateEventStatus c st) s
      in (r, if r = None then s1\<lparr>event_status := (event_status s1)(c \<mapsto> st)\<rparr> else s1))"

text \<open>
  Modelled from the spec: \<^verbatim>\<open>dao.SaveVoteAndUpdateEventStatus\<close> is not in the source files.
  The spec gives \<^verbatim>\<open>saveVoteAndAdvanceStatus(vote, challengeId) -> error\<close>, a duplicate
  being told from other failures by the error, and has the broadcaster change an event's
  status in its three-valued domain only on expiry: the request is recorded with its
  answer, and the status column is left as it is.
\<close>

definition SaveVoteAndUpdateEventStatus ::
  "env \<Rightarrow> vote \<Rightarrow> uint64 \<Rightarrow> state \<Rightarrow> error option \<times> state" where
  "SaveVoteAndUpdateEventStatus env v c s =
     (save_vote_at env (tick s), call (Call_SaveVoteAndUpdateEventStatus v c) s)"

definition GetVotesByEventHash ::
  "env \<Rightarrow> bytes \<Rightarrow> state \<Rightarrow> (error + vote list) \<times> state" where
  "GetVotesByEventHash env h s = (votes_at env (tick s), call (Call_GetVotesByEventHash h) s)"

definition BroadcastVote :: "env \<Rightarrow> vote \<Rightarrow> state \<Rightarrow> error option \<times> state" where
  "BroadcastVote env v s = (broadcast_at env (tick s), call (Call_BroadcastVote v) s)"

section \<open>Executor: the cached validator set\<close>

definition queryLatestValidators :: "env \<Rightarrow> state \<Rightarrow> (error + validator list) \<times> state" where
  "queryLatestValidators env s = (validators_at env (tick s), call Call_queryLatestValidators s)"

definition QueryCachedLatestValidators ::
  "env \<Rightarrow> state \<Rightarrow> (error + validator list) \<times> state" where
  "QueryCachedLatestValidators env s =
     (if length (validators s) \<noteq> 0 then (Inr (validators s), s)
      else (case queryLatestValidators env s of
              (Inl err, s1) \<Rightarrow> (Inl err, s1)
            | (Inr vs, s1) \<Rightarrow> (Inr vs, s1)))"

text \<open>One tick of \<^verbatim>\<open>UpdateCachedLatestValidatorsLoop\<close>.\<close>

definition UpdateCachedLatestValidators_tick :: "env \<Rightarrow> state \<Rightarrow> state" where
  "UpdateCachedLatestValidators_tick env s =
     (case queryLatestValidators env s of
        (Inl err, s1) \<Rightarrow> emit (Log Errorf (Update_validators_failed err)) s1
      | (Inr vs, s1) \<Rightarrow> s1\<lparr>validators := vs\<rparr>)"

section \<open>VoteCollator\<close>

definition collator_preCheck :: "env \<Rightarrow> event \<Rightarrow> state \<Rightarrow> error option \<times> state" where
  "collator_preCheck env e s =
     (case GetCachedBlockHeight env s of
        (currentHeight, s1) \<Rightarrow>
          if currentHeight > ExpiredHeight e
          then (Some ErrEventExpired,
                emit (Log Infof (Collator_expired (ChallengeId e) (ExpiredHeight e) currentHeight)) s1)
          else (None, s1))"

text \<open>
  \<^verbatim>\<open>len(queriedVotes) > len(validators)*2/3\<close> on Go's \<^verbatim>\<open>int\<close>: both lengths are lengths of
  slices of pointers, far below \<open>2^62\<close>, so the product does not wrap and the division of
  non-negative numbers is the floor.
\<close>

definition queryMoreThanTwoThirdVotesForEvent ::
  "env \<Rightarrow> event \<Rightarrow> validator list \<Rightarrow> state \<Rightarrow> error option \<times> state" where
  "queryMoreThanTwoThirdVotesForEvent env e vals s =
     (case collator_preCheck env e s of
        (Some err, s1) \<Rightarrow>
          if error_text err = error_text ErrEventExpired
          then UpdateEventStatusByChallengeId env (ChallengeId e) Expired s1
          else (Some err, s1)
      | (None, s1) \<Rightarrow>
          (case GetVotesByEventHash env (CalculateEventHash env e) s1 of
             (Inl err, s2) \<Rightarrow>
               (Some err, emit (Log Errorf (Query_votes_failed (ChallengeId e) err)) s2)
           | (Inr queriedVotes, s2) \<Rightarrow>
               (let s3 = emit (Log Infof (Collating_vote_count (ChallengeId e) (length queriedVotes))) s2
                in if length queriedVotes > length vals * 2 div 3 then (None, s3)
                   else (Some (NotEnoughVotes (ChallengeId e)), emit (Sleep RetryInterval) s3))))"

definition prepareEnoughValidVotesForEvent :: "env \<Rightarrow> event \<Rightarrow> state \<Rightarrow> error option \<times> state" where
  "prepareEnoughValidVotesForEvent env e s =
     (case QueryCachedLatestValidators env s of
        (Inl err, s1) \<Rightarrow> (Some err, s1)
      | (Inr vals, s1) \<Rightarrow>
          if length vals = 1 then (None, s1)
          else (case queryMoreThanTwoThirdVotesForEvent env e vals s1 of
                  (Some err, s2) \<Rightarrow> (Some err, s2)
                | (None, s2) \<Rightarrow> (None, s2)))"

definition collateForSingleEvent :: "env \<Rightarrow> event \<Rightarrow> state \<Rightarrow> error option \<times> state" where
  "collateForSingleEvent env e s =
     (case collator_preCheck env e s of
        (Some err, s1) \<Rightarrow> (Some err, s1)
      | (None, s1) \<Rightarrow>
          (case prepareEnoughValidVotesForEvent env e s1 of
             (Some err, s2) \<Rightarrow> (Some err, s2)
           | (None, s2) \<Rightarrow>
               (case UpdateEventStatus env (ChallengeId e) EnoughVotesCollected s2 of
                  (Some err, s3) \<Rightarrow> (Some err, s3)
                | (None, s3) \<Rightarrow> (None, emit (Log Infof (Collator_completed (ChallengeId e))) s3))))"

text \<open>
  The \<^verbatim>\<open>for _, event := range events\<close> loop of \<^verbatim>\<open>CollateVotesLoop\<close>. Besides the state
  it returns the successive values of \<^verbatim>\<open>err\<close>, one per event.
\<close>

fun collate_events :: "env \<Rightarrow> event list \<Rightarrow> state \<Rightarrow> error option list \<times> state" where
  "collate_events env [] s = ([], s)"
| "collate_events env (e # es) s =
     (case collateForSingleEvent env e s of
        (err, s1) \<Rightarrow>
          (case collate_events env es
                  (if err \<noteq> None then emit (Sleep RetryInterval) s1
                   else emit (Sleep (Milliseconds 50)) s1) of
             (errs, s2) \<Rightarrow> (err # errs, s2)))"

text \<open>One pass through the body of the \<^verbatim>\<open>for { ... }\<close> of \<^verbatim>\<open>CollateVotesLoop\<close>.\<close>

definition CollateVotesLoop_iteration :: "env \<Rightarrow> state \<Rightarrow> state" where
  "CollateVotesLoop_iteration env s =
     (case GetCachedBlockHeight env s of
        (currentHeight, s1) \<Rightarrow>
          (case FetchEventsForCollate env currentHeight s1 of
             ((events, err), s2) \<Rightarrow>
               (let s3 = emit (Log Infof (Fetched_for_collate (length events))) s2
                in case err of
                     Some er \<Rightarrow> emit (Sleep RetryInterval) (emit (Log Errorf (Fetch_failed er)) s3)
                   | None \<Rightarrow>
                       if length events = 0 then emit (Sleep RetryInterval) s3
                       else emit (Sleep RetryInterval) (snd (collate_events env events s3)))))"

section \<open>VoteBroadcaster\<close>

definition broadcaster_preCheck :: "env \<Rightarrow> event \<Rightarrow> state \<Rightarrow> error option \<times> state" where
  "broadcaster_preCheck env e s =
     (case GetCachedBlockHeight env s of
        (currentHeight, s1) \<Rightarrow>
          if currentHeight > ExpiredHeight e
          then (Some ErrEventExpired,
                emit (Log Infof (Broadcaster_expired (ChallengeId e) (ExpiredHeight e) currentHeight)) s1)
          else (None, s1))"

definition broadcastForSingleEvent ::
  "env \<Rightarrow> vote \<Rightarrow> event \<Rightarrow> state \<Rightarrow> error option \<times> state" where
  "broadcastForSingleEvent env localVote e s =
     (case broadcaster_preCheck env e s of
        (Some err, s1) \<Rightarrow>
          if error_text err = error_text ErrEventExpired
          then (case UpdateEventStatusByChallengeId env (ChallengeId e) Expired s1 of
                  (Some err', s2) \<Rightarrow> (Some (UpdateStatusFailed (ChallengeId e)), s2)
                | (None, s2) \<Rightarrow>
                    (None, s2\<lparr>cachedLocalVote := (cachedLocalVote s2)(ChallengeId e := None)\<rparr>))
          else (Some err, s1)
      | (None, s1) \<Rightarrow>
          (case BroadcastVote env localVote (emit (Log Infof (Broadcaster_starting (ChallengeId e))) s1) of
             (Some err, s2) \<Rightarrow> (Some (BroadcastFailed (ChallengeId e)), s2)
           | (None, s2) \<Rightarrow>
               (None, emit (Log Infof (Vote_broadcasted (ChallengeId e) (Height e))) s2)))"

text \<open>The vote is returned with the error, as the source returns \<^verbatim>\<open>&v, err\<close>.\<close>

definition constructVoteAndSign ::
  "env \<Rightarrow> event \<Rightarrow> state \<Rightarrow> (vote \<times> error option) \<times> state" where
  "constructVoteAndSign env e s =
     (let v0 = \<lparr>PubKey = [], Signature = [], EventType = DataAvailabilityChallengeEvent,
                EventHash = []\<rparr>;
          eventHash = CalculateEventHash env e;
          v = SignVote env v0 eventHash;
          s1 = emit (Call_SignVote eventHash) s
      in case SaveVoteAndUpdateEventStatus env v (ChallengeId e) s1 of
           (Some err, s2) \<Rightarrow> ((v, Some err), s2)
         | (None, s2) \<Rightarrow> ((v, None), s2))"

text \<open>
  Lines 59 to 72 of the loop body: the vote to broadcast for the event, from the cache or
  freshly signed. \<open>Inl err\<close> is the \<^verbatim>\<open>continue\<close> of line 68.
\<close>

definition local_vote_for_event :: "env \<Rightarrow> event \<Rightarrow> state \<Rightarrow> (error + vote) \<times> state" where
  "local_vote_for_event env e s =
     (case cachedLocalVote s (ChallengeId e) of
        Some localVote \<Rightarrow> (Inr localVote, s)
      | None \<Rightarrow>
          (case constructVoteAndSign env e s of
             ((localVote, Some err), s1) \<Rightarrow>
               if Contains (error_text err) ''Duplicate''
               then (Inr localVote,
                     (emit (Log Errorf (Duplicated_vote (ChallengeId e) err)) s1)
                       \<lparr>cachedLocalVote := (cachedLocalVote s1)(ChallengeId e \<mapsto> localVote)\<rparr>)
               else (Inl err, emit (Log Errorf (Construct_vote_failed (ChallengeId e) err)) s1)
           | ((localVote, None), s1) \<Rightarrow>
               (Inr localVote,
                s1\<lparr>cachedLocalVote := (cachedLocalVote s1)(ChallengeId e \<mapsto> localVote)\<rparr>)))"

text \<open>The whole loop body for one event, lines 59 to 78, with the final value of \<^verbatim>\<open>err\<close>.\<close>

definition broadcast_event :: "env \<Rightarrow> event \<Rightarrow> state \<Rightarrow> error option \<times> state" where
  "broadcast_event env e s =
     (case local_vote_for_event env e s of
        (Inl err, s1) \<Rightarrow> (Some err, s1)
      | (Inr localVote, s1) \<Rightarrow>
          (case broadcastForSingleEvent env localVote e s1 of
             (Some err, s2) \<Rightarrow> (Some err, s2)
           | (None, s2) \<Rightarrow> (None, emit (Sleep (Milliseconds 50)) s2)))"

fun broadcast_events :: "env \<Rightarrow> event list \<Rightarrow> state \<Rightarrow> error option list \<times> state" where
  "broadcast_events env [] s = ([], s)"
| "broadcast_events env (e # es) s =
     (case broadcast_event env e s of
        (err, s1) \<Rightarrow>
          (case broadcast_events env es s1 of
             (errs, s2) \<Rightarrow> (err # errs, s2)))"

text \<open>
  One pass through the body of the \<^verbatim>\<open>for { ... }\<close> of \<^verbatim>\<open>BroadcastVotesLoop\<close>. The local
  variable \<^verbatim>\<open>broadcastLoopCount\<close> (a Go \<^verbatim>\<open>int\<close>, 64 bits) travels with the state;
  \<open>N\<close> is \<^verbatim>\<open>common.CacheClearIterations\<close>, a constant of package \<^verbatim>\<open>common\<close>.
\<close>

definition BroadcastVotesLoop_iteration ::
  "env \<Rightarrow> 64 word \<Rightarrow> state \<times> 64 word \<Rightarrow> state \<times> 64 word" where
  "BroadcastVotesLoop_iteration env N st =
     (case st of
        (s, broadcastLoopCount) \<Rightarrow>
          (case GetCachedBlockHeight env s of
             (currentHeight, s1) \<Rightarrow>
               (case FetchEventsForSelfVote env currentHeight s1 of
                  ((events, err), s2) \<Rightarrow>
                    (case err of
                       Some er \<Rightarrow> (emit (Log Errorf (Fetch_failed er)) s2, broadcastLoopCount)
                     | None \<Rightarrow>
                         if length events = 0 then (emit (Sleep RetryInterval) s2, broadcastLoopCount)
                         else (let s3 = snd (broadcast_events env events s2)
                               in if broadcastLoopCount + 1 = N
                                  then (emit (Sleep RetryInterval) (s3\<lparr>cachedLocalVote := Map.empty\<rparr>), 0)
                                  else (emit (Sleep RetryInterval) s3, broadcastLoopCount + 1))))))"


text \<open>The first \<open>k\<close> iterations of the loop.\<close>

fun BroadcastVotesLoop_run :: "env \<Rightarrow> 64 word \<Rightarrow> nat \<Rightarrow> state \<times> 64 word \<Rightarrow> state \<times> 64 word" where
  "BroadcastVotesLoop_run env N 0 st = st"
| "BroadcastVotesLoop_run env N (Suc k) st =
     BroadcastVotesLoop_iteration env N (BroadcastVotesLoop_run env N k st)"




section \<open>Notions used by the properties\<close>

text \<open>The vote that \<open>constructVoteAndSign\<close> builds for an event.\<close>

definition signed_vote :: "env \<Rightarrow> event \<Rightarrow> vote" where
  "signed_vote env e =
     SignVote env \<lparr>PubKey = [], Signature = [], EventType = DataAvailabilityChallengeEvent,
                   EventHash = []\<rparr> (CalculateEventHash env e)"

text \<open>
  An iteration of the broadcaster loop is completed when it reaches the end of the loop
  body, that is, when the fetch (the second collaborator call of the iteration) succeeds
  with at least one event; the other iterations leave through a \<^verbatim>\<open>continue\<close>.
\<close>

definition iteration_completes :: "env \<Rightarrow> state \<Rightarrow> bool" where
  "iteration_completes env s =
     (case fetch_self_vote_at env (Suc (tick s)) of
        (events, err) \<Rightarrow> err = None \<and> length events \<noteq> 0)"

fun completed_iterations :: "env \<Rightarrow> 64 word \<Rightarrow> nat \<Rightarrow> state \<times> 64 word \<Rightarrow> nat" where
  "completed_iterations env N 0 st = 0"
| "completed_iterations env N (Suc k) st =
     completed_iterations env N k st
       + (if iteration_completes env (fst (BroadcastVotesLoop_run env N k st)) then 1 else 0)"

text \<open>
  Counting in a trace, for a challenge id: the sign-and-persist requests (each call of
  \<open>constructVoteAndSign\<close> makes exactly one \<open>SaveVoteAndUpdateEventStatus\<close> request),
  the persistence failures that are not duplicates (logged at line 67), and the expiries
  seen by the broadcaster's pre-check (logged at line 118).
\<close>

definition is_sign_request :: "uint64 \<Rightarrow> action \<Rightarrow> bool" where
  "is_sign_request c a =
     (case a of Call_SaveVoteAndUpdateEventStatus v c' \<Rightarrow> c' = c | _ \<Rightarrow> False)"

definition is_construct_failure :: "uint64 \<Rightarrow> action \<Rightarrow> bool" where
  "is_construct_failure c a =
     (case a of Log sev (Construct_vote_failed c' err) \<Rightarrow> c' = c | _ \<Rightarrow> False)"

definition is_expiry :: "uint64 \<Rightarrow> action \<Rightarrow> bool" where
  "is_expiry c a =
     (case a of Log sev (Broadcaster_expired c' eh h) \<Rightarrow> c' = c | _ \<Rightarrow> False)"

definition sign_requests :: "uint64 \<Rightarrow> action list \<Rightarrow> nat" where
  "sign_requests c tr = length (filter (is_sign_request c) tr)"

definition construct_failures :: "uint64 \<Rightarrow> action list \<Rightarrow> nat" where
  "construct_failures c tr = length (filter (is_construct_failure c) tr)"

definition expiries :: "uint64 \<Rightarrow> action list \<Rightarrow> nat" where
  "expiries c tr = length (filter (is_expiry c) tr)"


subsection \<open>A concrete scenario\<close>

text \<open>
  The scenario of the specification: event 42 expires at height 1000, the validator set
  has four members, the cached height is 500, and three votes are stored for the event.
\<close>

definition example_event :: event where
  "example_event = \<lparr>ChallengeId = 42, Height = 400, ExpiredHeight = 1000\<rparr>"

definition example_vote :: vote where
  "example_vote = \<lparr>PubKey = [1], Signature = [2], EventType = DataAvailabilityChallengeEvent,
                    EventHash = [3]\<rparr>"

definition example_env :: env where
  "example_env =
     \<lparr>height_at = (\<lambda>t. 500),
      fetch_self_vote_at = (\<lambda>t. ([example_event], None)),
      fetch_collate_at = (\<lambda>t. ([example_event], None)),
      save_vote_at = (\<lambda>t. None),
      update_status_at = (\<lambda>t. None),
      broadcast_at = (\<lambda>t. None),
      votes_at = (\<lambda>t. Inr [example_vote, example_vote, example_vote]),
      validators_at = (\<lambda>t. Inr [[1], [2], [3], [4]]),
      CalculateEventHash = (\<lambda>e. [3]),
      SignVote = (\<lambda>v h. v\<lparr>PubKey := [1], Signature := [2], EventHash := h\<rparr>)\<rparr>"

definition example_state :: state where
  "example_state =
     \<lparr>tick = 0, trace = [], event_status = [42 \<mapsto> Open], cachedLocalVote = Map.empty,
      validators = [[1], [2], [3], [4]]\<rparr>"

section \<open>Basic facts\<close>

lemma emit_fields [simp]:
  "tick (emit a s) = tick s"
  "trace (emit a s) = trace s @ [a]"
  "event_status (emit a s) = event_status s"
  "cachedLocalVote (emit a s) = cachedLocalVote s"
  "validators (emit a s) = validators s"
  by (simp_all add: emit_def)

lemma call_fields [simp]:
  "tick (call a s) = Suc (tick s)"
  "trace (call a s) = trace s @ [a]"
  "event_status (call a s) = event_status s"
  "cachedLocalVote (call a s) = cachedLocalVote s"
  "validators (call a s) = validators s"
  by (simp_all add: call_def)

lemmas collator_defs =
  collateForSingleEvent_def prepareEnoughValidVotesForEvent_def
  queryMoreThanTwoThirdVotesForEvent_def collator_preCheck_def QueryCachedLatestValidators_def
  queryLatestValidators_def GetCachedBlockHeight_def UpdateEventStatus_def
  UpdateEventStatusByChallengeId_def GetVotesByEventHash_def

lemmas broadcaster_defs =
  broadcast_event_def local_vote_for_event_def constructVoteAndSign_def
  broadcastForSingleEvent_def broadcaster_preCheck_def GetCachedBlockHeight_def
  UpdateEventStatusByChallengeId_def SaveVoteAndUpdateEventStatus_def BroadcastVote_def

lemma collator_preCheck_pass:
  "\<not> height_at env (tick s) > ExpiredHeight e \<Longrightarrow>
   collator_preCheck env e s = (None, call (Call_GetCachedBlockHeight (height_at env (tick s))) s)"
  by (simp add: collator_preCheck_def GetCachedBlockHeight_def)

lemma query_quorum:
  assumes "\<not> height_at env (tick s) > ExpiredHeight e"
    and "votes_at env (Suc (tick s)) = Inr queriedVotes"
  shows "(fst (queryMoreThanTwoThirdVotesForEvent env e vals s) = None)
           = (length queriedVotes > length vals * 2 div 3)"
  using assms
  by (simp add: queryMoreThanTwoThirdVotesForEvent_def collator_preCheck_pass
      GetVotesByEventHash_def Let_def)

section \<open>The quorum threshold\<close>

text \<open>
  C1. For a validator set of size \<open>n > 1\<close> and any list of queried votes, the collator
  (once the validators are obtained, the pre-check passes and the votes are read) treats
  quorum as reached exactly when the number of votes is strictly greater than
  \<open>floor(2n/3)\<close>; for \<open>n\<close> = 2, 3, 4, 5, 10, 100 the least counts that reach quorum are
  2, 3, 3, 4, 7, 67.
\<close>

theorem quorum_threshold:
  assumes "QueryCachedLatestValidators env s = (Inr vals, s1)"
    and "1 < length vals"
    and "\<not> height_at env (tick s1) > ExpiredHeight e"
    and "votes_at env (Suc (tick s1)) = Inr queriedVotes"
  shows "(fst (prepareEnoughValidVotesForEvent env e s) = None)
           = (length queriedVotes > length vals * 2 div 3)
       \<and> (\<forall>m. (length vals, m) \<in> {(2, 2), (3, 3), (4, 3), (5, 4), (10, 7), (100, 67)} \<longrightarrow>
             (fst (prepareEnoughValidVotesForEvent env e s) = None) = (m \<le> length queriedVotes))"
proof -
  have q: "(fst (queryMoreThanTwoThirdVotesForEvent env e vals s1) = None)
           = (length queriedVotes > length vals * 2 div 3)"
    using assms(3,4) by (rule query_quorum)
  have p: "fst (prepareEnoughValidVotesForEvent env e s)
         = fst (queryMoreThanTwoThirdVotesForEvent env e vals s1)"
    using assms(1,2)
    by (simp add: prepareEnoughValidVotesForEvent_def split: prod.splits option.splits)
  show ?thesis unfolding p q by auto
qed

theorem quorum_threshold_witness:
  "QueryCachedLatestValidators example_env example_state
     = (Inr [[1], [2], [3], [4]], example_state)
   \<and> 1 < length [[1], [2], [3], [4 :: 8 word]]
   \<and> \<not> height_at example_env (tick example_state) > ExpiredHeight example_event
   \<and> votes_at example_env (Suc (tick example_state))
       = Inr [example_vote, example_vote, example_vote]
   \<and> fst (prepareEnoughValidVotesForEvent example_env example_event example_state) = None"
proof -
  have h1: "QueryCachedLatestValidators example_env example_state
     = (Inr [[1], [2], [3], [4]], example_state)"
    by (simp add: QueryCachedLatestValidators_def example_state_def)
  have h2: "1 < length [[1], [2], [3], [4 :: 8 word]]" by simp
  have h3: "\<not> height_at example_env (tick example_state) > ExpiredHeight example_event"
    by (simp add: example_env_def example_event_def)
  have h4: "votes_at example_env (Suc (tick example_state))
       = Inr [example_vote, example_vote, example_vote]"
    by (simp add: example_env_def)
  show ?thesis
    using quorum_threshold [OF h1 h2 h3 h4] h1 h3 h4 by simp
qed

section \<open>Expiry at the collator's pre-check\<close>

text \<open>
  C2. The specification asks that an event whose \<open>expiredHeight\<close> is below the current
  height at the collator's pre-check be moved to \<open>Expired\<close> in the Store, whatever votes
  exist, with no vote counting and no quorum decision. The code is evaluated here on the
  event of the scenario. When the height read by \<open>collateForSingleEvent\<close>'s own pre-check
  is 1001, the function returns \<open>ErrEventExpired\<close> after the log line, no update of the
  Store is requested and the event stays \<open>Open\<close>. When the first read is 1000 and the
  second (the pre-check inside \<open>queryMoreThanTwoThirdVotesForEvent\<close>) is 1001, the event
  is written \<open>Expired\<close>, the successful update's \<^verbatim>\<open>nil\<close> is returned, and the caller goes
  on to write \<open>EnoughVotesCollected\<close> over it.
\<close>

theorem collator_expiry_evaluated:
  "collateForSingleEvent (example_env\<lparr>height_at := (\<lambda>t. 1001)\<rparr>) example_event example_state
     = (Some ErrEventExpired,
        example_state\<lparr>tick := 1,
                      trace := [Call_GetCachedBlockHeight 1001,
                                Log Infof (Collator_expired 42 1000 1001)]\<rparr>)
   \<and> event_status (snd (collateForSingleEvent (example_env\<lparr>height_at := (\<lambda>t. 1001)\<rparr>)
                           example_event example_state)) 42 = Some Open
   \<and> fst (collateForSingleEvent (example_env\<lparr>height_at := (\<lambda>t. if t = 0 then 1000 else 1001)\<rparr>)
           example_event example_state) = None
   \<and> trace (snd (collateForSingleEvent (example_env\<lparr>height_at := (\<lambda>t. if t = 0 then 1000 else 1001)\<rparr>)
                   example_event example_state))
       = [Call_GetCachedBlockHeight 1000, Call_GetCachedBlockHeight 1001,
          Log Infof (Collator_expired 42 1000 1001),
          Call_UpdateEventStatusByChallengeId 42 Expired,
          Call_UpdateEventStatus 42 EnoughVotesCollected,
          Log Infof (Collator_completed 42)]
   \<and> event_status (snd (collateForSingleEvent (example_env\<lparr>height_at := (\<lambda>t. if t = 0 then 1000 else 1001)\<rparr>)
                   example_event example_state)) 42 = Some EnoughVotesCollected"
  by (simp add: collator_defs example_env_def example_state_def example_event_def Let_def
      emit_def call_def)

section \<open>A failed fetch in the broadcaster loop\<close>

text \<open>
  C3. The specification asks that an iteration of the broadcaster loop whose fetch fails
  log the error and wait \<open>RetryInterval\<close> before the next query, the loop going on. The
  code is evaluated here on a failing fetch: the broadcaster's iteration ends after the
  log line, without any \<open>Sleep\<close>, and the next iteration queries at once; the collator's
  iteration, on the same failure, sleeps \<open>RetryInterval\<close>.
\<close>

theorem broadcaster_fetch_failure_evaluated:
  "fst (BroadcastVotesLoop_iteration
          (example_env\<lparr>fetch_self_vote_at := (\<lambda>t. ([], Some (External ''connection refused'')))\<rparr>)
          10 (example_state, 0))
     = example_state\<lparr>tick := 2,
                     trace := [Call_GetCachedBlockHeight 500, Call_FetchEventsForSelfVote 500,
                               Log Errorf (Fetch_failed (External ''connection refused''))]\<rparr>
   \<and> trace (CollateVotesLoop_iteration
          (example_env\<lparr>fetch_collate_at := (\<lambda>t. ([], Some (External ''connection refused'')))\<rparr>)
          example_state)
     = [Call_GetCachedBlockHeight 500, Call_FetchEventsForCollate 500,
        Log Infof (Fetched_for_collate 0),
        Log Errorf (Fetch_failed (External ''connection refused'')),
        Sleep RetryInterval]"
  by (simp add: BroadcastVotesLoop_iteration_def CollateVotesLoop_iteration_def
      GetCachedBlockHeight_def FetchEventsForSelfVote_def FetchEventsForCollate_def
      example_env_def example_state_def emit_def call_def)

section \<open>Persistence errors when signing\<close>

text \<open>
  C4. For an event with no cached vote whose freshly signed vote fails to persist: if the
  error text contains \<^verbatim>\<open>Duplicate\<close>, the signed vote is placed in the cache and is the
  vote handed to \<open>broadcastForSingleEvent\<close> (and, when the event has not expired, the
  vote that is broadcast and that remains cached); with any other error the cache is left
  as it was, so the challenge id is still absent, nothing is broadcast, and the event is
  skipped with that error, to be signed again the next time it is fetched.
\<close>

theorem persist_error_duplicate_or_skip:
  assumes "cachedLocalVote s (ChallengeId e) = None"
    and "save_vote_at env (tick s) = Some err"
  shows "if Contains (error_text err) ''Duplicate''
         then fst (local_vote_for_event env e s) = Inr (signed_vote env e)
              \<and> cachedLocalVote (snd (local_vote_for_event env e s))
                  = (cachedLocalVote s)(ChallengeId e \<mapsto> signed_vote env e)
              \<and> trace (snd (local_vote_for_event env e s))
                  = trace s @ [Call_SignVote (CalculateEventHash env e),
                               Call_SaveVoteAndUpdateEventStatus (signed_vote env e) (ChallengeId e),
                               Log Errorf (Duplicated_vote (ChallengeId e) err)]
              \<and> broadcast_event env e s
                  = (case broadcastForSingleEvent env (signed_vote env e) e
                            (snd (local_vote_for_event env e s)) of
                       (Some er, s2) \<Rightarrow> (Some er, s2)
                     | (None, s2) \<Rightarrow> (None, emit (Sleep (Milliseconds 50)) s2))
              \<and> (\<not> height_at env (Suc (tick s)) > ExpiredHeight e \<longrightarrow>
                    Call_BroadcastVote (signed_vote env e)
                      \<in> set (trace (snd (broadcast_event env e s)))
                    \<and> cachedLocalVote (snd (broadcast_event env e s)) (ChallengeId e)
                        = Some (signed_vote env e))
         else fst (broadcast_event env e s) = Some err
              \<and> cachedLocalVote (snd (broadcast_event env e s)) = cachedLocalVote s
              \<and> cachedLocalVote (snd (broadcast_event env e s)) (ChallengeId e) = None
              \<and> trace (snd (broadcast_event env e s))
                  = trace s @ [Call_SignVote (CalculateEventHash env e),
                               Call_SaveVoteAndUpdateEventStatus (signed_vote env e) (ChallengeId e),
                               Log Errorf (Construct_vote_failed (ChallengeId e) err)]"
  using assms
  by (auto simp add: broadcaster_defs signed_vote_def Let_def split: option.splits)

theorem persist_error_duplicate_or_skip_witness:
  "cachedLocalVote example_state (ChallengeId example_event) = None
   \<and> save_vote_at (example_env\<lparr>save_vote_at := (\<lambda>t. Some (External ''Duplicate entry''))\<rparr>)
        (tick example_state) = Some (External ''Duplicate entry'')
   \<and> Contains (error_text (External ''Duplicate entry'')) ''Duplicate''
   \<and> \<not> height_at (example_env\<lparr>save_vote_at := (\<lambda>t. Some (External ''Duplicate entry''))\<rparr>)
          (Suc (tick example_state)) > ExpiredHeight example_event
   \<and> signed_vote (example_env\<lparr>save_vote_at := (\<lambda>t. Some (External ''Duplicate entry''))\<rparr>)
        example_event = example_vote
   \<and> Call_BroadcastVote
        (signed_vote (example_env\<lparr>save_vote_at := (\<lambda>t. Some (External ''Duplicate entry''))\<rparr>)
           example_event)
        \<in> set (trace (snd (broadcast_event
              (example_env\<lparr>save_vote_at := (\<lambda>t. Some (External ''Duplicate entry''))\<rparr>)
              example_event example_state)))
   \<and> cachedLocalVote (snd (broadcast_event
              (example_env\<lparr>save_vote_at := (\<lambda>t. Some (External ''Duplicate entry''))\<rparr>)
              example_event example_state)) (ChallengeId example_event)
       = Some (signed_vote (example_env\<lparr>save_vote_at := (\<lambda>t. Some (External ''Duplicate entry''))\<rparr>)
           example_event)
   \<and> save_vote_at (example_env\<lparr>save_vote_at := (\<lambda>t. Some (External ''connection refused''))\<rparr>)
        (tick example_state) = Some (External ''connection refused'')
   \<and> \<not> Contains (error_text (External ''connection refused'')) ''Duplicate''
   \<and> fst (broadcast_event
              (example_env\<lparr>save_vote_at := (\<lambda>t. Some (External ''connection refused''))\<rparr>)
              example_event example_state) = Some (External ''connection refused'')
   \<and> cachedLocalVote (snd (broadcast_event
              (example_env\<lparr>save_vote_at := (\<lambda>t. Some (External ''connection refused''))\<rparr>)
              example_event example_state)) (ChallengeId example_event) = None"
proof -
  have h1: "cachedLocalVote example_state (ChallengeId example_event) = None"
    by (simp add: example_state_def)
  have d2: "save_vote_at (example_env\<lparr>save_vote_at := (\<lambda>t. Some (External ''Duplicate entry''))\<rparr>)
        (tick example_state) = Some (External ''Duplicate entry'')"
    by simp
  have d3: "Contains (error_text (External ''Duplicate entry'')) ''Duplicate''"
    by simp
  have d4: "\<not> height_at (example_env\<lparr>save_vote_at := (\<lambda>t. Some (External ''Duplicate entry''))\<rparr>)
          (Suc (tick example_state)) > ExpiredHeight example_event"
    by (simp add: example_env_def example_event_def)
  have sv: "signed_vote (example_env\<lparr>save_vote_at := (\<lambda>t. Some (External ''Duplicate entry''))\<rparr>)
      example_event = example_vote"
    by (simp add: signed_vote_def example_env_def example_vote_def)
  have o2: "save_vote_at (example_env\<lparr>save_vote_at := (\<lambda>t. Some (External ''connection refused''))\<rparr>)
        (tick example_state) = Some (External ''connection refused'')"
    by simp
  have o3: "\<not> Contains (error_text (External ''connection refused'')) ''Duplicate''"
    by simp
  note D = persist_error_duplicate_or_skip [OF h1 d2]
  note O = persist_error_duplicate_or_skip [OF h1 o2]
  note A = D [unfolded if_P [OF d3]]
  note A5 = A [THEN conjunct2, THEN conjunct2, THEN conjunct2, THEN conjunct2, THEN mp, OF d4]
  note B = O [unfolded if_not_P [OF o3]]
  show ?thesis
    by (intro conjI h1 d2 d3 d4 sv o2 o3 A5 [THEN conjunct1] A5 [THEN conjunct2]
        B [THEN conjunct1] B [THEN conjunct2, THEN conjunct2, THEN conjunct1])
qed

section \<open>Status transitions\<close>











section \<open>Clearing the local vote cache\<close>

lemma iteration_counter:
  "BroadcastVotesLoop_iteration env N (s, cnt) = (s', cnt') \<Longrightarrow>
     (if iteration_completes env s
      then (if cnt + 1 = N then cnt' = 0 \<and> cachedLocalVote s' = Map.empty else cnt' = cnt + 1)
      else cnt' = cnt \<and> cachedLocalVote s' = cachedLocalVote s)"
  by (auto simp add: BroadcastVotesLoop_iteration_def iteration_completes_def
      GetCachedBlockHeight_def FetchEventsForSelfVote_def Let_def
      split: prod.splits option.splits if_splits)

lemma counter_succ:
  fixes cnt N :: "64 word"
  assumes "unat cnt < unat N"
  shows "unat (cnt + 1) = Suc (unat cnt)" and "(cnt + 1 = N) = (Suc (unat cnt) = unat N)"
proof -
  have "unat N < 2 ^ 64" using unsigned_less [of N, where 'a = nat] by simp
  with assms have "unat cnt + unat (1 :: 64 word) < 2 ^ LENGTH(64)" by simp
  then have "unat (cnt + 1) = unat cnt + unat (1 :: 64 word)"
    by (simp only: unat_add_lem)
  then show u: "unat (cnt + 1) = Suc (unat cnt)" by simp
  show "(cnt + 1 = N) = (Suc (unat cnt) = unat N)"
    using u by (auto simp add: word_unat_eq_iff)
qed

lemma run_counter:
  assumes "N \<noteq> 0"
  shows "unat (snd (BroadcastVotesLoop_run env N k (s, 0)))
           = completed_iterations env N k (s, 0) mod unat N"
proof (induction k)
  case 0
  show ?case by simp
next
  case (Suc k)
  obtain sk ck where st: "BroadcastVotesLoop_run env N k (s, 0) = (sk, ck)"
    by (cases "BroadcastVotesLoop_run env N k (s, 0)")
  obtain s' c' where it: "BroadcastVotesLoop_iteration env N (sk, ck) = (s', c')"
    by (cases "BroadcastVotesLoop_iteration env N (sk, ck)")
  have pos: "0 < unat N" using assms by (simp add: unat_gt_0)
  have lt: "unat ck < unat N" using Suc.IH st pos by simp
  show ?case
  proof (cases "iteration_completes env sk")
    case False
    then show ?thesis using iteration_counter [OF it] Suc.IH st it by simp
  next
    case True
    then show ?thesis
      using iteration_counter [OF it] Suc.IH st it counter_succ [OF lt] pos
      by (auto simp add: mod_Suc)
  qed
qed

text \<open>
  C7. Counting the completed iterations of the broadcaster loop (those that reach the end
  of the loop body) from the start of the loop, with \<open>N = CacheClearIterations\<close> not
  zero: the counter always equals the number of completed iterations modulo \<open>N\<close>; the
  iteration that brings that number to a multiple of \<open>N\<close> ends with the whole cache
  empty, whatever it held, and with the counter back at 0, so the clearing recurs every
  \<open>N\<close> completed iterations; an iteration that leaves early changes neither the counter
  nor the cache.
\<close>

theorem cache_cleared_every_N_completed_iterations:
  assumes "N \<noteq> 0"
  shows "unat (snd (BroadcastVotesLoop_run env N k (s, 0)))
           = completed_iterations env N k (s, 0) mod unat N
       \<and> (if iteration_completes env (fst (BroadcastVotesLoop_run env N k (s, 0)))
          then (if Suc (completed_iterations env N k (s, 0)) mod unat N = 0
                then cachedLocalVote (fst (BroadcastVotesLoop_run env N (Suc k) (s, 0))) = Map.empty
                     \<and> snd (BroadcastVotesLoop_run env N (Suc k) (s, 0)) = 0
                else snd (BroadcastVotesLoop_run env N (Suc k) (s, 0))
                       = snd (BroadcastVotesLoop_run env N k (s, 0)) + 1)
          else snd (BroadcastVotesLoop_run env N (Suc k) (s, 0))
                 = snd (BroadcastVotesLoop_run env N k (s, 0))
               \<and> cachedLocalVote (fst (BroadcastVotesLoop_run env N (Suc k) (s, 0)))
                   = cachedLocalVote (fst (BroadcastVotesLoop_run env N k (s, 0))))"
proof -
  obtain sk ck where st: "BroadcastVotesLoop_run env N k (s, 0) = (sk, ck)"
    by (cases "BroadcastVotesLoop_run env N k (s, 0)")
  have c: "unat ck = completed_iterations env N k (s, 0) mod unat N"
    using run_counter [OF assms, of env k s] st by simp
  have pos: "0 < unat N" using assms by (simp add: unat_gt_0)
  have lt: "unat ck < unat N" using c pos by simp
  obtain s' c' where it: "BroadcastVotesLoop_iteration env N (sk, ck) = (s', c')"
    by (cases "BroadcastVotesLoop_iteration env N (sk, ck)")
  show ?thesis
    using iteration_counter [OF it] it st c counter_succ [OF lt] pos
    by (auto simp add: mod_Suc split: if_splits)
qed

theorem cache_cleared_every_N_completed_iterations_witness:
  "(1 :: 64 word) \<noteq> 0
   \<and> iteration_completes example_env (fst (BroadcastVotesLoop_run example_env 1 0 (example_state, 0)))
   \<and> Suc (completed_iterations example_env 1 0 (example_state, 0)) mod unat (1 :: 64 word) = 0
   \<and> cachedLocalVote (fst (BroadcastVotesLoop_run example_env 1 (Suc 0) (example_state, 0)))
       = Map.empty
   \<and> snd (BroadcastVotesLoop_run example_env 1 (Suc 0) (example_state, 0)) = 0"
proof -
  have n: "(1 :: 64 word) \<noteq> 0" by simp
  have h1: "iteration_completes example_env
      (fst (BroadcastVotesLoop_run example_env 1 0 (example_state, 0)))"
    by (simp add: iteration_completes_def example_env_def)
  have h2: "Suc (completed_iterations example_env 1 0 (example_state, 0)) mod unat (1 :: 64 word) = 0"
    by simp
  note T = cache_cleared_every_N_completed_iterations [OF n, of example_env 0 example_state,
      THEN conjunct2, unfolded if_P [OF h1] if_P [OF h2]]
  show ?thesis
    by (intro conjI n h1 h2 T [THEN conjunct1] T [THEN conjunct2])
qed

section \<open>A single validator\<close>

text \<open>
  C8. When the collator's pre-check passes and the cached validator set has exactly one
  member, no votes are queried: after the height is read, the only request is the update
  of the event's status to \<open>EnoughVotesCollected\<close>, which the Store holds afterwards
  unless the update itself fails.
\<close>

theorem single_validator_skips_counting:
  assumes "\<not> height_at env (tick s) > ExpiredHeight e"
    and "validators s = [v]"
  shows "trace (snd (collateForSingleEvent env e s)) =
           trace s @ [Call_GetCachedBlockHeight (height_at env (tick s)),
                      Call_UpdateEventStatus (ChallengeId e) EnoughVotesCollected]
                   @ (if update_status_at env (Suc (tick s)) = None
                      then [Log Infof (Collator_completed (ChallengeId e))] else [])
       \<and> fst (collateForSingleEvent env e s) = update_status_at env (Suc (tick s))
       \<and> event_status (snd (collateForSingleEvent env e s)) =
           (if update_status_at env (Suc (tick s)) = None
            then (event_status s)(ChallengeId e \<mapsto> EnoughVotesCollected) else event_status s)"
  using assms
  by (auto simp add: collator_defs Let_def split: option.splits)

theorem single_validator_skips_counting_witness:
  "\<not> height_at example_env (tick example_state) > ExpiredHeight example_event
   \<and> validators (example_state\<lparr>validators := [[7]]\<rparr>) = [[7]]
   \<and> trace (snd (collateForSingleEvent example_env example_event (example_state\<lparr>validators := [[7]]\<rparr>)))
       = [Call_GetCachedBlockHeight 500, Call_UpdateEventStatus 42 EnoughVotesCollected,
          Log Infof (Collator_completed 42)]
   \<and> event_status (snd (collateForSingleEvent example_env example_event (example_state\<lparr>validators := [[7]]\<rparr>))) 42
       = Some EnoughVotesCollected"
  using single_validator_skips_counting [where env = example_env and s = "example_state\<lparr>validators := [[7]]\<rparr>"
      and e = example_event and v = "[7]"]
  by (simp add: example_env_def example_state_def example_event_def)

section \<open>Errors do not stop the loops\<close>










section \<open>Reading the cached validators\<close>

text \<open>
  C10. \<open>QueryCachedLatestValidators\<close> returns the cached validators, with no query and no
  change of state, whenever the cache is not empty; on an empty cache it makes one query,
  returns its answer and leaves the cache field as it was. The field is assigned by a
  tick of \<open>UpdateCachedLatestValidatorsLoop\<close> whose query succeeds.
\<close>

theorem cached_validators_read_only:
  "(validators s \<noteq> [] \<longrightarrow> QueryCachedLatestValidators env s = (Inr (validators s), s))
   \<and> (validators s = [] \<longrightarrow>
        fst (QueryCachedLatestValidators env s) = validators_at env (tick s)
        \<and> validators (snd (QueryCachedLatestValidators env s)) = validators s
        \<and> trace (snd (QueryCachedLatestValidators env s)) = trace s @ [Call_queryLatestValidators])
   \<and> validators (UpdateCachedLatestValidators_tick env s) =
        (case validators_at env (tick s) of Inl err \<Rightarrow> validators s | Inr vs \<Rightarrow> vs)"
  by (auto simp add: QueryCachedLatestValidators_def queryLatestValidators_def
      UpdateCachedLatestValidators_tick_def split: sum.splits)

theorem cached_validators_read_only_witness:
  "validators example_state \<noteq> []
   \<and> QueryCachedLatestValidators example_env example_state
       = (Inr (validators example_state), example_state)
   \<and> validators (example_state\<lparr>validators := []\<rparr>) = []
   \<and> fst (QueryCachedLatestValidators example_env (example_state\<lparr>validators := []\<rparr>))
       = validators_at example_env (tick (example_state\<lparr>validators := []\<rparr>))
   \<and> validators (snd (QueryCachedLatestValidators example_env (example_state\<lparr>validators := []\<rparr>)))
       = validators (example_state\<lparr>validators := []\<rparr>)"
proof -
  have h1: "validators example_state \<noteq> []" by (simp add: example_state_def)
  have h2: "validators (example_state\<lparr>validators := []\<rparr>) = []" by simp
  note A = cached_validators_read_only [of example_state example_env, THEN conjunct1, THEN mp, OF h1]
  note B = cached_validators_read_only [of "example_state\<lparr>validators := []\<rparr>" example_env,
      THEN conjunct2, THEN conjunct1, THEN mp, OF h2]
  show ?thesis
    by (intro conjI h1 h2 A B [THEN conjunct1] B [THEN conjunct2, THEN conjunct1])
qed

section \<open>Sign requests between two cache clears\<close>

lemmas count_defs =
  sign_requests_def construct_failures_def expiries_def
  is_sign_request_def is_construct_failure_def is_expiry_def





lemma is_simps [simp]:
  "is_sign_request c (Call_SaveVoteAndUpdateEventStatus v c') = (c' = c)"
  "is_sign_request c (Call_SignVote h) = False"
  "is_sign_request c (Call_GetCachedBlockHeight x) = False"
  "is_sign_request c (Call_UpdateEventStatusByChallengeId c' st) = False"
  "is_sign_request c (Call_BroadcastVote v) = False"
  "is_sign_request c (Call_FetchEventsForSelfVote x) = False"
  "is_sign_request c (Log sev l) = False"
  "is_sign_request c (Sleep d) = False"
  "is_construct_failure c (Log sev (Construct_vote_failed c' err)) = (c' = c)"
  "is_construct_failure c (Log sev (Duplicated_vote c' err)) = False"
  "is_construct_failure c (Log sev (Broadcaster_starting c')) = False"
  "is_construct_failure c (Log sev (Vote_broadcasted c' x)) = False"
  "is_construct_failure c (Log sev (Broadcaster_expired c' x y)) = False"
  "is_construct_failure c (Log sev (Fetch_failed err)) = False"
  "is_construct_failure c (Call_SaveVoteAndUpdateEventStatus v c') = False"
  "is_construct_failure c (Call_SignVote h) = False"
  "is_construct_failure c (Call_GetCachedBlockHeight x) = False"
  "is_construct_failure c (Call_UpdateEventStatusByChallengeId c' st) = False"
  "is_construct_failure c (Call_BroadcastVote v) = False"
  "is_construct_failure c (Call_FetchEventsForSelfVote x) = False"
  "is_construct_failure c (Sleep d) = False"
  "is_expiry c (Log sev (Broadcaster_expired c' x y)) = (c' = c)"
  "is_expiry c (Log sev (Construct_vote_failed c' err)) = False"
  "is_expiry c (Log sev (Duplicated_vote c' err)) = False"
  "is_expiry c (Log sev (Broadcaster_starting c')) = False"
  "is_expiry c (Log sev (Vote_broadcasted c' x)) = False"
  "is_expiry c (Log sev (Fetch_failed err)) = False"
  "is_expiry c (Call_SaveVoteAndUpdateEventStatus v c') = False"
  "is_expiry c (Call_SignVote h) = False"
  "is_expiry c (Call_GetCachedBlockHeight x) = False"
  "is_expiry c (Call_UpdateEventStatusByChallengeId c' st) = False"
  "is_expiry c (Call_BroadcastVote v) = False"
  "is_expiry c (Call_FetchEventsForSelfVote x) = False"
  "is_expiry c (Sleep d) = False"
  by (simp_all add: is_sign_request_def is_construct_failure_def is_expiry_def)









lemma prefix_emit: "prefix (trace s) (trace (emit a s))"
  by simp











end
